theory Spec2Isabelle
  imports Main
begin

section \<open>Data model\<close>

subsection \<open>Package log: loggers and their output targets\<close>

text \<open>
  The two \<^verbatim>\<open>io.Writer\<close> values the package ever installs in a logger:
  \<^verbatim>\<open>os.Stdout\<close> (the console) and \<^verbatim>\<open>io.Discard\<close>.
\<close>

datatype writer = Stdout | Discard

text \<open>
  A \<^verbatim>\<open>log.Logger\<close> as built by \<^verbatim>\<open>log.New(out, prefix, flag)\<close>.
\<close>

record Logger =
  out :: writer
  prefix :: string
  flag :: int

text \<open>
  The package holds two logger objects behind pointers; \<^verbatim>\<open>errorLog\<close> and
  \<^verbatim>\<open>infoLog\<close> name them. The slice \<^verbatim>\<open>loggers\<close> lists both pointers.
\<close>

datatype logger_ref = errorLog | infoLog

text \<open>
  The arguments the program hands to \<^verbatim>\<open>Println\<close>: a string, the parameter
  slice of a session, or an error value.
\<close>

datatype ('v, 'e) arg = Str string | Vars "'v list" | Err 'e

text \<open>
  One line on the console: the prefix of the logger that wrote it and the arguments
  printed. The date, time and file position that the flags add in front of the message
  are left out of the model.
\<close>

type_synonym ('v, 'e) line = "string \<times> ('v, 'e) arg list"

subsection \<open>Package session\<close>

text \<open>
  \<^verbatim>\<open>strings.Builder\<close> is modelled by the text written so far.
\<close>

type_synonym Builder = string

text \<open>
  The struct \<^verbatim>\<open>Session\<close>. The handle \<^verbatim>\<open>*sql.DB\<close> is an opaque value of type
  \<open>'db\<close>; a parameter value (\<^verbatim>\<open>interface{}\<close>) is an opaque value of type \<open>'v\<close>.
  The nil slice and the empty slice are both the empty list: \<^verbatim>\<open>append\<close> on a nil
  slice with no values gives nil again, so a session never holds an empty slice that is
  not nil.
\<close>

record ('db, 'v) Session =
  db :: 'db
  sql :: Builder
  sqlVars :: "'v list"

subsection \<open>The state of the program\<close>

text \<open>
  Everything the functions below read or change: the two loggers (global variables of
  package log), what has been written to the console, the session objects allocated so
  far (a session pointer is an index into \<open>heap\<close>; an index outside it stands for the nil
  pointer), and the state \<open>'w\<close> of the world behind the database driver.
\<close>

record ('db, 'v, 'e, 'w) world =
  logger :: "logger_ref \<Rightarrow> Logger"
  console :: "('v, 'e) line list"
  heap :: "('db, 'v) Session list"
  extern :: 'w

text \<open>
  The operations of \<^verbatim>\<open>database/sql\<close> the repository calls. They are not code of the
  repository, so they are parameters: each takes the state of the outside world and
  returns its results with the new state. A Go \<^verbatim>\<open>error\<close> result is \<open>'e option\<close>,
  \<open>None\<close> for nil. The calls are taken to return; a panic raised inside the driver is not
  modelled.
\<close>

record ('db, 'v, 'e, 'res, 'row, 'rows, 'w) driver =
  sql_Open :: "string \<Rightarrow> string \<Rightarrow> 'w \<Rightarrow> ('db \<times> 'e option) \<times> 'w"
  db_Ping :: "'db \<Rightarrow> 'w \<Rightarrow> 'e option \<times> 'w"
  db_Exec :: "'db \<Rightarrow> string \<Rightarrow> 'v list \<Rightarrow> 'w \<Rightarrow> ('res \<times> 'e option) \<times> 'w"
  db_QueryRow :: "'db \<Rightarrow> string \<Rightarrow> 'v list \<Rightarrow> 'w \<Rightarrow> 'row \<times> 'w"
  db_Query :: "'db \<Rightarrow> string \<Rightarrow> 'v list \<Rightarrow> 'w \<Rightarrow> ('rows \<times> 'e option) \<times> 'w"

text \<open>
  A method called through a nil \<^verbatim>\<open>*Session\<close> panics at the first field access.
\<close>

datatype panic = NilDereference

section \<open>Package log\<close>

text \<open>
  \<^verbatim>\<open>log.LstdFlags|log.Lshortfile\<close> is \<open>3 OR 16\<close>.
\<close>

definition initial_logger :: "logger_ref \<Rightarrow> Logger" where
  "initial_logger l =
     (case l of
        errorLog \<Rightarrow> \<lparr>out = Stdout, prefix = CHR 0x1B # ''[31m[error]'' @ CHR 0x1B # ''[0m '', flag = 19\<rparr>
      | infoLog \<Rightarrow> \<lparr>out = Stdout, prefix = CHR 0x1B # ''[34m[info ]'' @ CHR 0x1B # ''[0m '', flag = 19\<rparr>)"

definition loggers :: "logger_ref list" where
  "loggers = [errorLog, infoLog]"

definition InfoLevel :: int where "InfoLevel = 0"
definition ErrorLevel :: int where "ErrorLevel = 1"
definition Disabled :: int where "Disabled = 2"

definition SetOutput ::
  "logger_ref \<Rightarrow> writer \<Rightarrow> ('db, 'v, 'e, 'w) world \<Rightarrow> ('db, 'v, 'e, 'w) world" where
  "SetOutput l w st = st\<lparr>logger := (logger st)(l := (logger st l)\<lparr>out := w\<rparr>)\<rparr>"

text \<open>
  \<^verbatim>\<open>Println\<close> writes one line to the logger's current output target; what goes to
  \<^verbatim>\<open>io.Discard\<close> is lost.
\<close>

definition Println ::
  "logger_ref \<Rightarrow> ('v, 'e) arg list \<Rightarrow> ('db, 'v, 'e, 'w) world \<Rightarrow> ('db, 'v, 'e, 'w) world" where
  "Println l as st =
     (case out (logger st l) of
        Stdout \<Rightarrow> st\<lparr>console := console st @ [(prefix (logger st l), as)]\<rparr>
      | Discard \<Rightarrow> st)"

definition Error ::
  "('v, 'e) arg list \<Rightarrow> ('db, 'v, 'e, 'w) world \<Rightarrow> ('db, 'v, 'e, 'w) world" where
  "Error = Println errorLog"

definition Info ::
  "('v, 'e) arg list \<Rightarrow> ('db, 'v, 'e, 'w) world \<Rightarrow> ('db, 'v, 'e, 'w) world" where
  "Info = Println infoLog"

text \<open>
  \<^verbatim>\<open>SetLevel\<close>: the loop over \<^verbatim>\<open>loggers\<close> sends every logger to the console, then
  the two comparisons send the error logger and the info logger to the discard target.
  The level is a Go \<^verbatim>\<open>int\<close>; it is only compared with constants, so \<open>int\<close> models it.
  The mutex is held for the whole body; the model is the sequential behaviour.
\<close>

definition SetLevel :: "int \<Rightarrow> ('db, 'v, 'e, 'w) world \<Rightarrow> ('db, 'v, 'e, 'w) world" where
  "SetLevel level st =
     (let st1 = fold (\<lambda>l. SetOutput l Stdout) loggers st;
          st2 = (if ErrorLevel < level then SetOutput errorLog Discard st1 else st1)
      in if InfoLevel < level then SetOutput infoLog Discard st2 else st2)"

section \<open>Package session\<close>

definition WriteString :: "string \<Rightarrow> Builder \<Rightarrow> Builder" where
  "WriteString str b = b @ str"

definition Reset :: "Builder \<Rightarrow> Builder" where
  "Reset b = []"

definition deref :: "nat \<Rightarrow> ('db, 'v, 'e, 'w) world \<Rightarrow> ('db, 'v) Session option" where
  "deref p st = (if p < length (heap st) then Some (heap st ! p) else None)"

definition assign ::
  "nat \<Rightarrow> ('db, 'v) Session \<Rightarrow> ('db, 'v, 'e, 'w) world \<Rightarrow> ('db, 'v, 'e, 'w) world" where
  "assign p s st = st\<lparr>heap := (heap st)[p := s]\<rparr>"

text \<open>
  \<^verbatim>\<open>New\<close> allocates \<^verbatim>\<open>&Session{db: db}\<close>: the builder and the slice have their
  zero values. It returns the new pointer.
\<close>

definition New :: "'db \<Rightarrow> ('db, 'v, 'e, 'w) world \<Rightarrow> nat \<times> ('db, 'v, 'e, 'w) world" where
  "New d st = (length (heap st), st\<lparr>heap := heap st @ [\<lparr>db = d, sql = [], sqlVars = []\<rparr>]\<rparr>)"

definition Clear ::
  "nat \<Rightarrow> ('db, 'v, 'e, 'w) world \<Rightarrow> panic + (unit \<times> ('db, 'v, 'e, 'w) world)" where
  "Clear p st =
     (case deref p st of
        None \<Rightarrow> Inl NilDereference
      | Some s \<Rightarrow>
          (let s1 = s\<lparr>sql := Reset (sql s)\<rparr>;
               s2 = s1\<lparr>sqlVars := []\<rparr>
           in Inr ((), assign p s2 st)))"


text \<open>
  \<^verbatim>\<open>Raw\<close>: two writes to the builder, one \<^verbatim>\<open>append\<close>, and the receiver is
  returned.
\<close>

definition Raw ::
  "string \<Rightarrow> 'v list \<Rightarrow> nat \<Rightarrow> ('db, 'v, 'e, 'w) world \<Rightarrow> panic + (nat \<times> ('db, 'v, 'e, 'w) world)" where
  "Raw q values p st =
     (case deref p st of
        None \<Rightarrow> Inl NilDereference
      | Some s \<Rightarrow>
          (let s1 = s\<lparr>sql := WriteString q (sql s)\<rparr>;
               s2 = s1\<lparr>sql := WriteString '' '' (sql s1)\<rparr>;
               s3 = s2\<lparr>sqlVars := sqlVars s2 @ values\<rparr>
           in Inr (p, assign p s3 st)))"

text \<open>
  The three terminal calls. Each logs the statement and its parameters on the info
  channel, calls the driver with the text and the parameters as separate arguments, and
  (for \<^verbatim>\<open>Exec\<close> and \<^verbatim>\<open>QueryRows\<close>) logs a driver error on the error channel. The
  deferred \<^verbatim>\<open>Clear\<close> runs last. Through a nil receiver the first field access panics
  and so does the deferred \<^verbatim>\<open>Clear\<close>: nothing is logged or changed.
\<close>

definition Exec ::
  "('db, 'v, 'e, 'res, 'row, 'rows, 'w) driver \<Rightarrow> nat \<Rightarrow> ('db, 'v, 'e, 'w) world
     \<Rightarrow> panic + (('res \<times> 'e option) \<times> ('db, 'v, 'e, 'w) world)" where
  "Exec D p st =
     (case deref p st of
        None \<Rightarrow> Inl NilDereference
      | Some s \<Rightarrow>
          (let st1 = Info [Str (sql s), Vars (sqlVars s)] st;
               ((result, err), w) = db_Exec D (db s) (sql s) (sqlVars s) (extern st1);
               st2 = st1\<lparr>extern := w\<rparr>;
               st3 = (case err of None \<Rightarrow> st2 | Some e \<Rightarrow> Error [Err e] st2)
           in case Clear p st3 of
                Inl x \<Rightarrow> Inl x
              | Inr (u, st4) \<Rightarrow> Inr ((result, err), st4)))"

definition QueryRow ::
  "('db, 'v, 'e, 'res, 'row, 'rows, 'w) driver \<Rightarrow> nat \<Rightarrow> ('db, 'v, 'e, 'w) world
     \<Rightarrow> panic + ('row \<times> ('db, 'v, 'e, 'w) world)" where
  "QueryRow D p st =
     (case deref p st of
        None \<Rightarrow> Inl NilDereference
      | Some s \<Rightarrow>
          (let st1 = Info [Str (sql s), Vars (sqlVars s)] st;
               (row, w) = db_QueryRow D (db s) (sql s) (sqlVars s) (extern st1);
               st2 = st1\<lparr>extern := w\<rparr>
           in case Clear p st2 of
                Inl x \<Rightarrow> Inl x
              | Inr (u, st3) \<Rightarrow> Inr (row, st3)))"

definition QueryRows ::
  "('db, 'v, 'e, 'res, 'row, 'rows, 'w) driver \<Rightarrow> nat \<Rightarrow> ('db, 'v, 'e, 'w) world
     \<Rightarrow> panic + (('rows \<times> 'e option) \<times> ('db, 'v, 'e, 'w) world)" where
  "QueryRows D p st =
     (case deref p st of
        None \<Rightarrow> Inl NilDereference
      | Some s \<Rightarrow>
          (let st1 = Info [Str (sql s), Vars (sqlVars s)] st;
               ((rows, err), w) = db_Query D (db s) (sql s) (sqlVars s) (extern st1);
               st2 = st1\<lparr>extern := w\<rparr>;
               st3 = (case err of None \<Rightarrow> st2 | Some e \<Rightarrow> Error [Err e] st2)
           in case Clear p st3 of
                Inl x \<Rightarrow> Inl x
              | Inr (u, st4) \<Rightarrow> Inr ((rows, err), st4)))"

section \<open>Package geeorm\<close>

record 'db Engine =
  db_Engine :: 'db

text \<open>
  \<^verbatim>\<open>NewEngine\<close> has the named results \<^verbatim>\<open>e\<close> and \<^verbatim>\<open>err\<close>; the short variable
  declaration of \<^verbatim>\<open>db, err\<close> assigns the result \<^verbatim>\<open>err\<close>, which is in the same
  scope. The \<^verbatim>\<open>*Engine\<close> result is an option, \<open>None\<close> for nil.
\<close>

definition NewEngine ::
  "('db, 'v, 'e, 'res, 'row, 'rows, 'w) driver \<Rightarrow> string \<Rightarrow> string \<Rightarrow> ('db, 'v, 'e, 'w) world
     \<Rightarrow> ('db Engine option \<times> 'e option) \<times> ('db, 'v, 'e, 'w) world" where
  "NewEngine D driver source st =
     (let ((d, err), w1) = sql_Open D driver source (extern st);
          st1 = st\<lparr>extern := w1\<rparr>
      in case err of
           Some e \<Rightarrow> ((None, Some e), Error [Err e] st1)
         | None \<Rightarrow>
             (let (err, w2) = db_Ping D d (extern st1);
                  st2 = st1\<lparr>extern := w2\<rparr>
              in case err of
                   Some e \<Rightarrow> ((None, Some e), Error [Err e] st2)
                 | None \<Rightarrow>
                     ((Some \<lparr>db_Engine = d\<rparr>, None),
                      Info [Str ''Connect database success''] st2)))"

section \<open>Calls in sequence\<close>

text \<open>
  One call after another: a panic ends the sequence, otherwise the next call gets the
  value and the state the first one left.
\<close>

definition andThen ::
  "panic + ('a \<times> 's) \<Rightarrow> ('a \<Rightarrow> 's \<Rightarrow> panic + ('b \<times> 's)) \<Rightarrow> panic + ('b \<times> 's)" where
  "andThen m f = (case m of Inl x \<Rightarrow> Inl x | Inr (a, st) \<Rightarrow> f a st)"

text \<open>
  A chain \<^verbatim>\<open>s.Raw(q1, v1...).Raw(q2, v2...)...\<close>: each call is made on the pointer the
  one before returned.
\<close>

fun Raws ::
  "(string \<times> 'v list) list \<Rightarrow> nat \<Rightarrow> ('db, 'v, 'e, 'w) world
     \<Rightarrow> panic + (nat \<times> ('db, 'v, 'e, 'w) world)" where
  "Raws [] p st = Inr (p, st)"
| "Raws (c # cs) p st = andThen (Raw (fst c) (snd c) p st) (Raws cs)"

text \<open>
  The session behind a pointer holds no text and no parameters.
\<close>

definition cleared :: "nat \<Rightarrow> ('db, 'v, 'e, 'w) world \<Rightarrow> bool" where
  "cleared p st = (case deref p st of None \<Rightarrow> False | Some s \<Rightarrow> sql s = [] \<and> sqlVars s = [])"

section \<open>A driver to run the model on\<close>

text \<open>
  The state a program starts in: both loggers as their declarations build them, nothing
  on the console, no session allocated.
\<close>

definition initial_world :: "'w \<Rightarrow> ('db, 'v, 'e, 'w) world" where
  "initial_world w = \<lparr>logger = initial_logger, console = [], heap = [], extern = w\<rparr>"

text \<open>
  A small driver for concrete runs. Its world is the list of statements it has
  received, each with its parameters. A handle is a number, and handle \<open>0\<close> cannot be
  reached. Executing a statement it has already received fails (as creating a table twice
  does); a single-row query gives a cursor that carries the no-rows outcome.
\<close>

type_synonym demo_world = "(string \<times> string list) list"

definition demo_driver ::
  "(nat, string, string, nat, string + string list, string list list, demo_world) driver" where
  "demo_driver =
     \<lparr>sql_Open = (\<lambda>driver source w.
         if driver = ''sqlite3'' then ((length source, None), w)
         else ((0, Some ''unknown driver''), w)),
      db_Ping = (\<lambda>d w. if d = 0 then (Some ''unable to open database file'', w) else (None, w)),
      db_Exec = (\<lambda>d q vs w.
         if (q, vs) \<in> set w then ((0, Some ''already exists''), w @ [(q, vs)])
         else ((length vs, None), w @ [(q, vs)])),
      db_QueryRow = (\<lambda>d q vs w. (Inl ''no rows in result set'', w @ [(q, vs)])),
      db_Query = (\<lambda>d q vs w. (([], None), w @ [(q, vs)]))\<rparr>"

text \<open>
  The starting state with one session allocated by \<^verbatim>\<open>New\<close>, on handle \<open>6\<close>; its
  pointer is \<open>0\<close>.
\<close>

definition demo_state :: "demo_world \<Rightarrow> (nat, string, string, demo_world) world" where
  "demo_state w = snd (New 6 (initial_world w))"

text \<open>
  The same state after \<^verbatim>\<open>Raw("SELECT Name FROM User WHERE Name = ?", "Tom")\<close> on that
  session: the buffer holds the fragment and a space, the parameter sequence one value.
\<close>

definition demo_filled :: "(nat, string, string, demo_world) world" where
  "demo_filled =
     (demo_state [])\<lparr>heap := [\<lparr>db = 6, sql = ''SELECT Name FROM User WHERE Name = ? '',
                                  sqlVars = [''Tom'']\<rparr>]\<rparr>"

section \<open>The logging level\<close>

lemma out_SetOutput:
  "out (logger (SetOutput l w st) r) = (if r = l then w else out (logger st r))"
  by (simp add: SetOutput_def)

lemma SetOutput_twice: "SetOutput l w (SetOutput l w' st) = SetOutput l w st"
  by (simp add: SetOutput_def)

lemma SetOutput_commute:
  "l \<noteq> r \<Longrightarrow> SetOutput l w (SetOutput r w' st) = SetOutput r w' (SetOutput l w st)"
  by (auto simp: SetOutput_def fun_upd_twist)

text \<open>
  The loop and the two comparisons together: each logger gets one target, fixed by the
  level.
\<close>

lemma SetLevel_unfold:
  "SetLevel level st =
     SetOutput infoLog (if 0 < level then Discard else Stdout)
       (SetOutput errorLog (if 1 < level then Discard else Stdout) st)"
  by (simp add: SetLevel_def loggers_def ErrorLevel_def InfoLevel_def Let_def
      SetOutput_twice SetOutput_commute [of infoLog errorLog])

lemma out_SetLevel:
  "out (logger (SetLevel level st) r) =
     (case r of errorLog \<Rightarrow> if 1 < level then Discard else Stdout
              | infoLog \<Rightarrow> if 0 < level then Discard else Stdout)"
  by (simp add: SetLevel_unfold out_SetOutput split: logger_ref.splits)

lemma prefix_SetLevel: "prefix (logger (SetLevel level st) r) = prefix (logger st r)"
  by (simp add: SetLevel_unfold SetOutput_def)

lemma console_SetLevel: "console (SetLevel level st) = console st"
  by (simp add: SetLevel_unfold SetOutput_def)

lemma console_Println:
  "console (Println l as st) =
     (case out (logger st l) of
        Stdout \<Rightarrow> console st @ [(prefix (logger st l), as)]
      | Discard \<Rightarrow> console st)"
  by (simp add: Println_def split: writer.splits)

lemma logger_Println: "logger (Println l as st) = logger st"
  by (simp add: Println_def split: writer.splits)

lemma console_Error:
  "console (Error as st) =
     (case out (logger st errorLog) of
        Stdout \<Rightarrow> console st @ [(prefix (logger st errorLog), as)]
      | Discard \<Rightarrow> console st)"
  by (simp add: Error_def console_Println)

lemma console_Info:
  "console (Info as st) =
     (case out (logger st infoLog) of
        Stdout \<Rightarrow> console st @ [(prefix (logger st infoLog), as)]
      | Discard \<Rightarrow> console st)"
  by (simp add: Info_def console_Println)

text \<open>
  C4. After \<^verbatim>\<open>SetLevel(Disabled)\<close> the info logger and the error logger both write to
  the discard target, and one info message followed by one error message leaves the
  console as it was. After \<^verbatim>\<open>SetLevel(ErrorLevel)\<close> the info logger writes to the
  discard target and the error logger to the console: of the two messages the console
  receives the error line only. After \<^verbatim>\<open>SetLevel(InfoLevel)\<close> both write to the
  console, which receives both lines in order.
\<close>

theorem SetLevel_targets:
  "out (logger (SetLevel Disabled st) infoLog) = Discard \<and>
   out (logger (SetLevel Disabled st) errorLog) = Discard \<and>
   console (Error es (Info is (SetLevel Disabled st))) = console st \<and>
   out (logger (SetLevel ErrorLevel st) infoLog) = Discard \<and>
   out (logger (SetLevel ErrorLevel st) errorLog) = Stdout \<and>
   console (Error es (Info is (SetLevel ErrorLevel st))) =
     console st @ [(prefix (logger st errorLog), es)] \<and>
   out (logger (SetLevel InfoLevel st) infoLog) = Stdout \<and>
   out (logger (SetLevel InfoLevel st) errorLog) = Stdout \<and>
   console (Error es (Info is (SetLevel InfoLevel st))) =
     console st @ [(prefix (logger st infoLog), is), (prefix (logger st errorLog), es)]"
  by (simp add: out_SetLevel prefix_SetLevel console_Println logger_Println console_SetLevel
      Error_def Info_def Disabled_def ErrorLevel_def InfoLevel_def)

text \<open>
  C10. \<^verbatim>\<open>SetLevel\<close> does not depend on the calls made before it: a call
  \<^verbatim>\<open>SetLevel(l')\<close> followed by \<^verbatim>\<open>SetLevel(l)\<close> leaves the state that
  \<^verbatim>\<open>SetLevel(l)\<close> alone leaves, for all levels \<open>l'\<close> and \<open>l\<close>, and the output target of
  each logger after \<^verbatim>\<open>SetLevel(l)\<close> is the same from any two starting states.
\<close>

theorem SetLevel_history_independent:
  "SetLevel l (SetLevel l' st) = SetLevel l st \<and>
   (\<forall>r. out (logger (SetLevel l st) r) = out (logger (SetLevel l st') r))"
  by (simp add: out_SetLevel)
    (simp add: SetLevel_unfold SetOutput_twice SetOutput_commute [of errorLog infoLog])

section \<open>Sessions: the heap and the calls, step by step\<close>

lemma deref_assign_same: "deref p st = Some s \<Longrightarrow> deref p (assign p s' st) = Some s'"
  by (auto simp: deref_def assign_def split: if_splits)

lemma assign_assign: "assign p s (assign p s' st) = assign p s st"
  by (simp add: assign_def)

lemma assign_same: "deref p st = Some s \<Longrightarrow> assign p s st = st"
  by (auto simp: deref_def assign_def split: if_splits)


lemma extern_assign: "extern (assign p s st) = extern st"
  by (simp add: assign_def)

lemma deref_Println: "deref p (Println l as st) = deref p st"
  by (simp add: deref_def Println_def split: writer.splits)


lemma extern_Println: "extern (Println l as st) = extern st"
  by (simp add: Println_def split: writer.splits)

lemma extern_Info: "extern (Info as st) = extern st"
  by (simp add: Info_def extern_Println)

lemma deref_extern: "deref p (st\<lparr>extern := w\<rparr>) = deref p st"
  by (simp add: deref_def)

lemma Raw_Some:
  "deref p st = Some s \<Longrightarrow>
   Raw q vs p st = Inr (p, assign p (s\<lparr>sql := sql s @ q @ '' '', sqlVars := sqlVars s @ vs\<rparr>) st)"
  by (simp add: Raw_def WriteString_def)

lemma Raw_None: "deref p st = None \<Longrightarrow> Raw q vs p st = Inl NilDereference"
  by (simp add: Raw_def)

lemma Raws_Some:
  "deref p st = Some s \<Longrightarrow>
   Raws cs p st = Inr (p, assign p (s\<lparr>sql := sql s @ concat (map (\<lambda>c. fst c @ '' '') cs),
                                       sqlVars := sqlVars s @ concat (map snd cs)\<rparr>) st)"
proof (induction cs arbitrary: s st)
  case Nil
  then show ?case by (simp add: assign_same)
next
  case (Cons c cs)
  let ?s1 = "s\<lparr>sql := sql s @ fst c @ '' '', sqlVars := sqlVars s @ snd c\<rparr>"
  have d: "deref p (assign p ?s1 st) = Some ?s1"
    using Cons.prems by (rule deref_assign_same)
  show ?case
    using Cons.IH [OF d] Cons.prems
    by (simp add: andThen_def Raw_Some assign_assign)
qed

lemma concat_fragments:
  "concat (map (\<lambda>c. fst c @ '' '') cs) = concat (map (\<lambda>q. q @ '' '') (map fst cs))"
  by (simp add: comp_def)

lemma Clear_Some:
  "deref p st = Some s \<Longrightarrow> Clear p st = Inr ((), assign p (s\<lparr>sql := [], sqlVars := []\<rparr>) st)"
  by (simp add: Clear_def Reset_def)

lemma cleared_assign:
  "deref p st = Some s \<Longrightarrow> cleared p (assign p (s'\<lparr>sql := [], sqlVars := []\<rparr>) st)"
  by (simp add: cleared_def deref_assign_same)

lemma Exec_Some:
  assumes "deref p st = Some s"
    and "db_Exec D (db s) (sql s) (sqlVars s) (extern st) = ((r, err), w)"
  shows "Exec D p st =
    Inr ((r, err),
         assign p (s\<lparr>sql := [], sqlVars := []\<rparr>)
           (case err of
              None \<Rightarrow> (Info [Str (sql s), Vars (sqlVars s)] st)\<lparr>extern := w\<rparr>
            | Some e \<Rightarrow> Error [Err e] ((Info [Str (sql s), Vars (sqlVars s)] st)\<lparr>extern := w\<rparr>)))"
proof -
  let ?st3 = "case err of
      None \<Rightarrow> (Info [Str (sql s), Vars (sqlVars s)] st)\<lparr>extern := w\<rparr>
    | Some e \<Rightarrow> Error [Err e] ((Info [Str (sql s), Vars (sqlVars s)] st)\<lparr>extern := w\<rparr>)"
  have d: "deref p ?st3 = Some s"
    using assms(1) by (simp add: Info_def Error_def deref_Println deref_extern split: option.splits)
  show ?thesis
    using assms Clear_Some [OF d]
    by (simp add: Exec_def extern_Info Let_def)
qed

lemma QueryRows_Some:
  assumes "deref p st = Some s"
    and "db_Query D (db s) (sql s) (sqlVars s) (extern st) = ((r, err), w)"
  shows "QueryRows D p st =
    Inr ((r, err),
         assign p (s\<lparr>sql := [], sqlVars := []\<rparr>)
           (case err of
              None \<Rightarrow> (Info [Str (sql s), Vars (sqlVars s)] st)\<lparr>extern := w\<rparr>
            | Some e \<Rightarrow> Error [Err e] ((Info [Str (sql s), Vars (sqlVars s)] st)\<lparr>extern := w\<rparr>)))"
proof -
  let ?st3 = "case err of
      None \<Rightarrow> (Info [Str (sql s), Vars (sqlVars s)] st)\<lparr>extern := w\<rparr>
    | Some e \<Rightarrow> Error [Err e] ((Info [Str (sql s), Vars (sqlVars s)] st)\<lparr>extern := w\<rparr>)"
  have d: "deref p ?st3 = Some s"
    using assms(1) by (simp add: Info_def Error_def deref_Println deref_extern split: option.splits)
  show ?thesis
    using assms Clear_Some [OF d]
    by (simp add: QueryRows_def extern_Info Let_def)
qed

lemma QueryRow_Some:
  assumes "deref p st = Some s"
    and "db_QueryRow D (db s) (sql s) (sqlVars s) (extern st) = (r, w)"
  shows "QueryRow D p st =
    Inr (r, assign p (s\<lparr>sql := [], sqlVars := []\<rparr>)
              ((Info [Str (sql s), Vars (sqlVars s)] st)\<lparr>extern := w\<rparr>))"
proof -
  have d: "deref p ((Info [Str (sql s), Vars (sqlVars s)] st)\<lparr>extern := w\<rparr>) = Some s"
    using assms(1) by (simp add: Info_def deref_Println deref_extern)
  show ?thesis
    using assms Clear_Some [OF d]
    by (simp add: QueryRow_def extern_Info Let_def)
qed

lemma deref_logged:
  "deref p (case err of None \<Rightarrow> (Info as st)\<lparr>extern := w\<rparr>
            | Some e \<Rightarrow> Error [Err e] ((Info as st)\<lparr>extern := w\<rparr>)) = deref p st"
  by (simp add: Info_def Error_def deref_Println deref_extern split: option.splits)


lemma deref_demo_state: "deref 0 (demo_state w) = Some \<lparr>db = 6, sql = [], sqlVars = []\<rparr>"
  by (simp add: demo_state_def New_def initial_world_def deref_def)

lemma deref_demo_filled:
  "deref 0 demo_filled =
     Some \<lparr>db = 6, sql = ''SELECT Name FROM User WHERE Name = ? '', sqlVars = [''Tom'']\<rparr>"
  by (simp add: demo_filled_def deref_def)

lemma Raw_demo_state:
  "Raw ''SELECT Name FROM User WHERE Name = ?'' [''Tom''] 0 (demo_state []) = Inr (0, demo_filled)"
proof -
  have h: "heap (demo_state []) = [\<lparr>db = 6, sql = [], sqlVars = []\<rparr>]"
    by (simp add: demo_state_def New_def initial_world_def)
  show ?thesis
    using Raw_Some [OF deref_demo_state [of "[]"],
        of "''SELECT Name FROM User WHERE Name = ?''" "[''Tom'']"]
    by (simp add: demo_filled_def assign_def h)
qed

section \<open>Sessions: building and running a statement\<close>

text \<open>
  C5. On a session, \<^verbatim>\<open>Raw(q, vs...)\<close> returns the pointer it was called on. The
  session's buffer is then the old text followed by \<open>q\<close> and one space, its parameter
  sequence is the old one followed by \<open>vs\<close> in order, and nothing else in the state has
  changed.
\<close>

theorem Raw_appends:
  assumes "deref p st = Some s"
  shows "\<exists>st'. Raw q vs p st = Inr (p, st') \<and>
     deref p st' = Some (s\<lparr>sql := sql s @ q @ '' '', sqlVars := sqlVars s @ vs\<rparr>) \<and>
     st' = st\<lparr>heap := (heap st)[p := s\<lparr>sql := sql s @ q @ '' '', sqlVars := sqlVars s @ vs\<rparr>]\<rparr>"
  using assms Raw_Some [OF assms, of q vs] deref_assign_same [OF assms]
  by (simp add: assign_def)

theorem Raw_appends_witness:
  "deref 0 (demo_state []) = Some \<lparr>db = 6, sql = [], sqlVars = []\<rparr> \<and>
   (\<exists>st'. Raw ''INSERT INTO User(`Name`) values (?), (?)'' [''Tom'', ''Sam''] 0 (demo_state [])
            = Inr (0, st') \<and>
      deref 0 st' = Some \<lparr>db = 6, sql = ''INSERT INTO User(`Name`) values (?), (?) '',
                           sqlVars = [''Tom'', ''Sam'']\<rparr> \<and>
      st' = (demo_state [])\<lparr>heap := [\<lparr>db = 6, sql = ''INSERT INTO User(`Name`) values (?), (?) '',
                                        sqlVars = [''Tom'', ''Sam'']\<rparr>]\<rparr>)"
proof -
  have h: "heap (demo_state []) = [\<lparr>db = 6, sql = [], sqlVars = []\<rparr>]"
    by (simp add: demo_state_def New_def initial_world_def)
  show ?thesis
    using Raw_appends [OF deref_demo_state [of "[]"],
        where q = "''INSERT INTO User(`Name`) values (?), (?)''" and vs = "[''Tom'', ''Sam'']"]
      deref_demo_state [of "[]"]
    by (simp add: h)
qed

text \<open>
  C3. On a session, \<^verbatim>\<open>Raw(A, va...).Raw(B, vb...)\<close> leaves the same state as one
  \<^verbatim>\<open>Raw\<close> call with the fragment \<open>A\<close>, one space, \<open>B\<close> and the parameters \<open>va\<close>
  followed by \<open>vb\<close>. The buffer then holds the old text, \<open>A\<close>, a space, \<open>B\<close> and a
  space, and each terminal call hands the driver that text and the old parameters
  followed by \<open>va\<close> and \<open>vb\<close>. So a terminal call made after either of the two gives the
  same result and leaves the same state.
\<close>

theorem Raw_fragments_join:
  assumes "deref p st = Some s"
  shows "andThen (Raw a va p st) (Raw b vb) = Raw (a @ '' '' @ b) (va @ vb) p st \<and>
   (\<exists>st1. andThen (Raw a va p st) (Raw b vb) = Inr (p, st1) \<and>
      deref p st1 = Some (s\<lparr>sql := sql s @ a @ '' '' @ b @ '' '', sqlVars := sqlVars s @ va @ vb\<rparr>) \<and>
      map_sum id fst (Exec D p st1) =
        Inr (fst (db_Exec D (db s) (sql s @ a @ '' '' @ b @ '' '') (sqlVars s @ va @ vb) (extern st))) \<and>
      map_sum id fst (QueryRow D p st1) =
        Inr (fst (db_QueryRow D (db s) (sql s @ a @ '' '' @ b @ '' '') (sqlVars s @ va @ vb) (extern st))) \<and>
      map_sum id fst (QueryRows D p st1) =
        Inr (fst (db_Query D (db s) (sql s @ a @ '' '' @ b @ '' '') (sqlVars s @ va @ vb) (extern st)))) \<and>
   andThen (andThen (Raw a va p st) (Raw b vb)) (Exec D) =
     andThen (Raw (a @ '' '' @ b) (va @ vb) p st) (Exec D) \<and>
   andThen (andThen (Raw a va p st) (Raw b vb)) (QueryRow D) =
     andThen (Raw (a @ '' '' @ b) (va @ vb) p st) (QueryRow D) \<and>
   andThen (andThen (Raw a va p st) (Raw b vb)) (QueryRows D) =
     andThen (Raw (a @ '' '' @ b) (va @ vb) p st) (QueryRows D)"
proof -
  let ?s1 = "s\<lparr>sql := sql s @ a @ '' '', sqlVars := sqlVars s @ va\<rparr>"
  let ?s2 = "s\<lparr>sql := sql s @ a @ '' '' @ b @ '' '', sqlVars := sqlVars s @ va @ vb\<rparr>"
  let ?st2 = "assign p ?s2 st"
  have d1: "deref p (assign p ?s1 st) = Some ?s1"
    using assms by (rule deref_assign_same)
  have two: "andThen (Raw a va p st) (Raw b vb) = Inr (p, ?st2)"
    by (simp add: andThen_def Raw_Some [OF assms] Raw_Some [OF d1] assign_assign)
  have one: "Raw (a @ '' '' @ b) (va @ vb) p st = Inr (p, ?st2)"
    by (simp add: Raw_Some [OF assms])
  have d: "deref p ?st2 = Some ?s2"
    using assms by (rule deref_assign_same)
  obtain r1 e1 w1 where x1: "db_Exec D (db ?s2) (sql ?s2) (sqlVars ?s2) (extern ?st2) = ((r1, e1), w1)"
    by (metis surj_pair)
  obtain r2 w2 where x2: "db_QueryRow D (db ?s2) (sql ?s2) (sqlVars ?s2) (extern ?st2) = (r2, w2)"
    by (metis surj_pair)
  obtain r3 e3 w3 where x3: "db_Query D (db ?s2) (sql ?s2) (sqlVars ?s2) (extern ?st2) = ((r3, e3), w3)"
    by (metis surj_pair)
  have e1: "map_sum id fst (Exec D p ?st2) =
       Inr (fst (db_Exec D (db s) (sql s @ a @ '' '' @ b @ '' '') (sqlVars s @ va @ vb) (extern st)))"
    using Exec_Some [OF d x1] x1 by (simp add: extern_assign)
  have e2: "map_sum id fst (QueryRow D p ?st2) =
       Inr (fst (db_QueryRow D (db s) (sql s @ a @ '' '' @ b @ '' '') (sqlVars s @ va @ vb) (extern st)))"
    using QueryRow_Some [OF d x2] x2 by (simp add: extern_assign)
  have e3: "map_sum id fst (QueryRows D p ?st2) =
       Inr (fst (db_Query D (db s) (sql s @ a @ '' '' @ b @ '' '') (sqlVars s @ va @ vb) (extern st)))"
    using QueryRows_Some [OF d x3] x3 by (simp add: extern_assign)
  have eq: "andThen (Raw a va p st) (Raw b vb) = Raw (a @ '' '' @ b) (va @ vb) p st"
    by (simp only: one two)
  have ex: "\<exists>st1. andThen (Raw a va p st) (Raw b vb) = Inr (p, st1) \<and>
      deref p st1 = Some ?s2 \<and>
      map_sum id fst (Exec D p st1) =
        Inr (fst (db_Exec D (db s) (sql s @ a @ '' '' @ b @ '' '') (sqlVars s @ va @ vb) (extern st))) \<and>
      map_sum id fst (QueryRow D p st1) =
        Inr (fst (db_QueryRow D (db s) (sql s @ a @ '' '' @ b @ '' '') (sqlVars s @ va @ vb) (extern st))) \<and>
      map_sum id fst (QueryRows D p st1) =
        Inr (fst (db_Query D (db s) (sql s @ a @ '' '' @ b @ '' '') (sqlVars s @ va @ vb) (extern st)))"
    using two d e1 e2 e3 by blast
  show ?thesis
    using ex by (simp only: eq)
qed

theorem Raw_fragments_join_witness:
  "deref 0 (demo_state []) = Some \<lparr>db = 6, sql = [], sqlVars = []\<rparr> \<and>
   andThen (Raw ''SELECT Name FROM User'' [] 0 (demo_state [])) (Raw ''WHERE Name = ?'' [''Tom'']) =
     Raw ''SELECT Name FROM User WHERE Name = ?'' [''Tom''] 0 (demo_state []) \<and>
   (\<exists>st1. andThen (Raw ''SELECT Name FROM User'' [] 0 (demo_state [])) (Raw ''WHERE Name = ?'' [''Tom''])
            = Inr (0, st1) \<and>
      deref 0 st1 = Some \<lparr>db = 6, sql = ''SELECT Name FROM User WHERE Name = ? '', sqlVars = [''Tom'']\<rparr> \<and>
      map_sum id fst (Exec demo_driver 0 st1) = Inr (1, None) \<and>
      map_sum id fst (QueryRow demo_driver 0 st1) = Inr (Inl ''no rows in result set'') \<and>
      map_sum id fst (QueryRows demo_driver 0 st1) = Inr ([], None)) \<and>
   andThen (andThen (Raw ''SELECT Name FROM User'' [] 0 (demo_state [])) (Raw ''WHERE Name = ?'' [''Tom'']))
       (Exec demo_driver) =
     andThen (Raw ''SELECT Name FROM User WHERE Name = ?'' [''Tom''] 0 (demo_state [])) (Exec demo_driver) \<and>
   andThen (andThen (Raw ''SELECT Name FROM User'' [] 0 (demo_state [])) (Raw ''WHERE Name = ?'' [''Tom'']))
       (QueryRow demo_driver) =
     andThen (Raw ''SELECT Name FROM User WHERE Name = ?'' [''Tom''] 0 (demo_state [])) (QueryRow demo_driver) \<and>
   andThen (andThen (Raw ''SELECT Name FROM User'' [] 0 (demo_state [])) (Raw ''WHERE Name = ?'' [''Tom'']))
       (QueryRows demo_driver) =
     andThen (Raw ''SELECT Name FROM User WHERE Name = ?'' [''Tom''] 0 (demo_state [])) (QueryRows demo_driver)"
proof -
  have w: "extern (demo_state []) = []"
    by (simp add: demo_state_def New_def initial_world_def)
  have x1: "fst (db_Exec demo_driver 6 ''SELECT Name FROM User WHERE Name = ? '' [''Tom''] []) =
      (1, None)"
    by (simp add: demo_driver_def)
  have x2: "fst (db_QueryRow demo_driver 6 ''SELECT Name FROM User WHERE Name = ? '' [''Tom''] []) =
      Inl ''no rows in result set''"
    by (simp add: demo_driver_def)
  have x3: "fst (db_Query demo_driver 6 ''SELECT Name FROM User WHERE Name = ? '' [''Tom''] []) =
      ([], None)"
    by (simp add: demo_driver_def)
  show ?thesis
    using Raw_fragments_join [OF deref_demo_state [of "[]"], where a = "''SELECT Name FROM User''"
        and va = "[]" and b = "''WHERE Name = ?''" and vb = "[''Tom'']" and D = demo_driver]
      deref_demo_state [of "[]"]
    by (simp (no_asm_use) add: w x1 x2 x3)
qed

text \<open>
  C2. Two runs of a chain of \<^verbatim>\<open>Raw\<close> calls with the same fragments, on sessions that
  start with the same text, end with the same text in the buffer, whatever parameter
  values each run supplies. The parameter values are collected, in order, in the
  parameter sequence, and each terminal call hands the driver the text and the parameter
  sequence as two separate arguments.
\<close>

theorem Raw_keeps_parameters_out_of_text:
  assumes "deref p st = Some s" and "deref p' st' = Some s'"
    and "sql s = sql s'" and "map fst cs = map fst cs'"
  shows "\<exists>st1 st1' s1 s1'.
     Raws cs p st = Inr (p, st1) \<and> Raws cs' p' st' = Inr (p', st1') \<and>
     deref p st1 = Some s1 \<and> deref p' st1' = Some s1' \<and>
     sql s1 = sql s1' \<and>
     sqlVars s1 = sqlVars s @ concat (map snd cs) \<and>
     sqlVars s1' = sqlVars s' @ concat (map snd cs') \<and>
     map_sum id fst (Exec D p st1) =
       Inr (fst (db_Exec D (db s) (sql s1) (sqlVars s1) (extern st))) \<and>
     map_sum id fst (QueryRow D p st1) =
       Inr (fst (db_QueryRow D (db s) (sql s1) (sqlVars s1) (extern st))) \<and>
     map_sum id fst (QueryRows D p st1) =
       Inr (fst (db_Query D (db s) (sql s1) (sqlVars s1) (extern st)))"
proof -
  let ?s1 = "s\<lparr>sql := sql s @ concat (map (\<lambda>c. fst c @ '' '') cs),
                sqlVars := sqlVars s @ concat (map snd cs)\<rparr>"
  let ?s1' = "s'\<lparr>sql := sql s' @ concat (map (\<lambda>c. fst c @ '' '') cs'),
                sqlVars := sqlVars s' @ concat (map snd cs')\<rparr>"
  let ?st1 = "assign p ?s1 st"
  let ?st1' = "assign p' ?s1' st'"
  have r: "Raws cs p st = Inr (p, ?st1)" using assms(1) by (rule Raws_Some)
  have r': "Raws cs' p' st' = Inr (p', ?st1')" using assms(2) by (rule Raws_Some)
  have d: "deref p ?st1 = Some ?s1" using assms(1) by (rule deref_assign_same)
  have d': "deref p' ?st1' = Some ?s1'" using assms(2) by (rule deref_assign_same)
  have t: "sql ?s1 = sql ?s1'"
    using assms(3,4) by (simp add: concat_fragments)
  have w: "extern ?st1 = extern st" by (simp add: assign_def)
  obtain r1 e1 w1 where x1: "db_Exec D (db ?s1) (sql ?s1) (sqlVars ?s1) (extern ?st1) = ((r1, e1), w1)"
    by (metis surj_pair)
  obtain r2 w2 where x2: "db_QueryRow D (db ?s1) (sql ?s1) (sqlVars ?s1) (extern ?st1) = (r2, w2)"
    by (metis surj_pair)
  obtain r3 e3 w3 where x3: "db_Query D (db ?s1) (sql ?s1) (sqlVars ?s1) (extern ?st1) = ((r3, e3), w3)"
    by (metis surj_pair)
  have e1: "map_sum id fst (Exec D p ?st1) =
       Inr (fst (db_Exec D (db s) (sql ?s1) (sqlVars ?s1) (extern st)))"
    using Exec_Some [OF d x1] x1 by (simp add: w)
  have e2: "map_sum id fst (QueryRow D p ?st1) =
       Inr (fst (db_QueryRow D (db s) (sql ?s1) (sqlVars ?s1) (extern st)))"
    using QueryRow_Some [OF d x2] x2 by (simp add: w)
  have e3: "map_sum id fst (QueryRows D p ?st1) =
       Inr (fst (db_Query D (db s) (sql ?s1) (sqlVars ?s1) (extern st)))"
    using QueryRows_Some [OF d x3] x3 by (simp add: w)
  have v: "sqlVars ?s1 = sqlVars s @ concat (map snd cs)" by simp
  have v': "sqlVars ?s1' = sqlVars s' @ concat (map snd cs')" by simp
  from r r' d d' t v v' e1 e2 e3 show ?thesis by blast
qed

theorem Raw_keeps_parameters_out_of_text_witness:
  "deref 0 (demo_state []) = Some \<lparr>db = 6, sql = [], sqlVars = []\<rparr> \<and>
   map fst [(''SELECT * FROM User WHERE Name = ?'', [''Tom''])] =
   map fst [(''SELECT * FROM User WHERE Name = ?'', [''1; DROP TABLE User; --''])] \<and>
   (\<exists>st1 st1' s1 s1'.
     Raws [(''SELECT * FROM User WHERE Name = ?'', [''Tom''])] 0 (demo_state []) = Inr (0, st1) \<and>
     Raws [(''SELECT * FROM User WHERE Name = ?'', [''1; DROP TABLE User; --''])] 0 (demo_state [])
       = Inr (0, st1') \<and>
     deref 0 st1 = Some s1 \<and> deref 0 st1' = Some s1' \<and>
     sql s1 = sql s1' \<and>
     sqlVars s1 = [] @ concat (map snd [(''SELECT * FROM User WHERE Name = ?'', [''Tom''])]) \<and>
     sqlVars s1' =
       [] @ concat (map snd [(''SELECT * FROM User WHERE Name = ?'', [''1; DROP TABLE User; --''])]) \<and>
     map_sum id fst (Exec demo_driver 0 st1) =
       Inr (fst (db_Exec demo_driver 6 (sql s1) (sqlVars s1) [])) \<and>
     map_sum id fst (QueryRow demo_driver 0 st1) =
       Inr (fst (db_QueryRow demo_driver 6 (sql s1) (sqlVars s1) [])) \<and>
     map_sum id fst (QueryRows demo_driver 0 st1) =
       Inr (fst (db_Query demo_driver 6 (sql s1) (sqlVars s1) [])))"
proof -
  have w: "extern (demo_state []) = []"
    by (simp add: demo_state_def New_def initial_world_def)
  have f: "map fst [(''SELECT * FROM User WHERE Name = ?'', [''Tom''])] =
      map fst [(''SELECT * FROM User WHERE Name = ?'', [''1; DROP TABLE User; --''])]"
    by simp
  show ?thesis
    using Raw_keeps_parameters_out_of_text [OF deref_demo_state [of "[]"] deref_demo_state [of "[]"] refl f,
        where D = demo_driver] deref_demo_state [of "[]"] f
    by (simp add: w)
qed

text \<open>
  C1. Take a session and any chain of \<^verbatim>\<open>Raw\<close> calls on it, followed by one terminal
  call (\<^verbatim>\<open>Exec\<close>, \<^verbatim>\<open>QueryRow\<close> or \<^verbatim>\<open>QueryRows\<close>). The terminal call returns,
  and in the state it leaves the session's text buffer and its parameter sequence are
  both empty. This holds for every driver, so both when the driver reports success and
  when it reports an error.
\<close>

theorem terminal_call_clears:
  assumes "deref p st = Some s"
  shows "(\<exists>r st'. andThen (Raws cs p st) (Exec D) = Inr (r, st') \<and> cleared p st') \<and>
         (\<exists>r st'. andThen (Raws cs p st) (QueryRow D) = Inr (r, st') \<and> cleared p st') \<and>
         (\<exists>r st'. andThen (Raws cs p st) (QueryRows D) = Inr (r, st') \<and> cleared p st')"
proof -
  let ?s1 = "s\<lparr>sql := sql s @ concat (map (\<lambda>c. fst c @ '' '') cs),
                sqlVars := sqlVars s @ concat (map snd cs)\<rparr>"
  let ?st1 = "assign p ?s1 st"
  have r: "Raws cs p st = Inr (p, ?st1)"
    using assms by (rule Raws_Some)
  have d: "deref p ?st1 = Some ?s1"
    using assms by (rule deref_assign_same)
  obtain r1 e1 w1 where x1: "db_Exec D (db ?s1) (sql ?s1) (sqlVars ?s1) (extern ?st1) = ((r1, e1), w1)"
    by (metis surj_pair)
  obtain r2 w2 where x2: "db_QueryRow D (db ?s1) (sql ?s1) (sqlVars ?s1) (extern ?st1) = (r2, w2)"
    by (metis surj_pair)
  obtain r3 e3 w3 where x3: "db_Query D (db ?s1) (sql ?s1) (sqlVars ?s1) (extern ?st1) = ((r3, e3), w3)"
    by (metis surj_pair)
  have "\<exists>r st'. andThen (Raws cs p st) (Exec D) = Inr (r, st') \<and> cleared p st'"
    unfolding r andThen_def using Exec_Some [OF d x1] d
    by (simp add: cleared_assign deref_logged del: Session.simps)
  moreover have "\<exists>r st'. andThen (Raws cs p st) (QueryRow D) = Inr (r, st') \<and> cleared p st'"
    unfolding r andThen_def using QueryRow_Some [OF d x2] d
    by (simp add: cleared_assign Info_def deref_Println deref_extern del: Session.simps)
  moreover have "\<exists>r st'. andThen (Raws cs p st) (QueryRows D) = Inr (r, st') \<and> cleared p st'"
    unfolding r andThen_def using QueryRows_Some [OF d x3] d
    by (simp add: cleared_assign deref_logged del: Session.simps)
  ultimately show ?thesis by blast
qed

theorem terminal_call_clears_witness:
  "deref 0 (demo_state [(''CREATE TABLE User(Name text); '', [])]) =
     Some \<lparr>db = 6, sql = [], sqlVars = []\<rparr> \<and>
   (\<exists>r st'. andThen (Raws [(''CREATE TABLE User(Name text);'', [])] 0
                 (demo_state [(''CREATE TABLE User(Name text); '', [])])) (Exec demo_driver)
             = Inr (r, st') \<and> cleared 0 st') \<and>
   (\<exists>r st'. andThen (Raws [(''CREATE TABLE User(Name text);'', [])] 0
                 (demo_state [(''CREATE TABLE User(Name text); '', [])])) (QueryRow demo_driver)
             = Inr (r, st') \<and> cleared 0 st') \<and>
   (\<exists>r st'. andThen (Raws [(''CREATE TABLE User(Name text);'', [])] 0
                 (demo_state [(''CREATE TABLE User(Name text); '', [])])) (QueryRows demo_driver)
             = Inr (r, st') \<and> cleared 0 st')"
  using terminal_call_clears [OF deref_demo_state,
      where cs = "[(''CREATE TABLE User(Name text);'', [])]" and D = demo_driver]
    deref_demo_state
  by blast

text \<open>
  C6. \<^verbatim>\<open>QueryRow\<close> returns the cursor the driver gave and nothing else: its result has
  no error component. It writes the statement on the info channel and never writes on the
  error channel, so a query without rows is reported by the cursor alone. The session's
  buffer and parameters are empty when it returns.
\<close>

theorem QueryRow_returns_cursor_only:
  assumes "deref p st = Some s"
  shows "\<exists>st'. QueryRow D p st =
           Inr (fst (db_QueryRow D (db s) (sql s) (sqlVars s) (extern st)), st') \<and>
         cleared p st' \<and>
         console st' = console (Info [Str (sql s), Vars (sqlVars s)] st) \<and>
         logger st' = logger st"
proof -
  obtain r w where x: "db_QueryRow D (db s) (sql s) (sqlVars s) (extern st) = (r, w)"
    by (metis surj_pair)
  have d: "deref p ((Info [Str (sql s), Vars (sqlVars s)] st)\<lparr>extern := w\<rparr>) = Some s"
    using assms by (simp add: Info_def deref_Println deref_extern)
  show ?thesis
    using QueryRow_Some [OF assms x] x cleared_assign [OF d, of s]
    by (simp add: assign_def Info_def logger_Println)
qed

theorem QueryRow_returns_cursor_only_witness:
  "deref 0 demo_filled =
     Some \<lparr>db = 6, sql = ''SELECT Name FROM User WHERE Name = ? '', sqlVars = [''Tom'']\<rparr> \<and>
   (\<exists>st'. QueryRow demo_driver 0 demo_filled = Inr (Inl ''no rows in result set'', st') \<and>
      cleared 0 st' \<and>
      console st' =
        [(CHR 0x1B # ''[34m[info ]'' @ CHR 0x1B # ''[0m '',
          [Str ''SELECT Name FROM User WHERE Name = ? '', Vars [''Tom'']])] \<and>
      logger st' = initial_logger)"
proof -
  have c: "console (Info [Str ''SELECT Name FROM User WHERE Name = ? '', Vars [''Tom'']] demo_filled) =
      [(CHR 0x1B # ''[34m[info ]'' @ CHR 0x1B # ''[0m '',
        [Str ''SELECT Name FROM User WHERE Name = ? '', Vars [''Tom'']])]"
    by (simp add: demo_filled_def demo_state_def New_def initial_world_def Info_def Println_def
        initial_logger_def)
  have l: "logger demo_filled = initial_logger"
    by (simp add: demo_filled_def demo_state_def New_def initial_world_def)
  have x: "fst (db_QueryRow demo_driver 6 ''SELECT Name FROM User WHERE Name = ? '' [''Tom'']
      (extern demo_filled)) = Inl ''no rows in result set''"
    by (simp add: demo_driver_def)
  show ?thesis
    using QueryRow_returns_cursor_only [OF deref_demo_filled, where D = demo_driver]
      deref_demo_filled
    by (simp (no_asm_use) add: c l x; blast)
qed

text \<open>
  C8. \<^verbatim>\<open>Clear\<close> called on the state that \<^verbatim>\<open>Clear\<close> left changes nothing: two calls
  in a row give the state one call gives, in which the session keeps its handle and its
  buffer and parameter sequence are empty.
\<close>

theorem Clear_idempotent:
  assumes "deref p st = Some s"
  shows "\<exists>st'. Clear p st = Inr ((), st') \<and> Clear p st' = Inr ((), st') \<and> cleared p st' \<and>
           deref p st' = Some (s\<lparr>sql := [], sqlVars := []\<rparr>) \<and>
           andThen (Clear p st) (\<lambda>u. Clear p) = Clear p st"
proof -
  let ?c = "s\<lparr>sql := [], sqlVars := []\<rparr>"
  have d: "deref p (assign p ?c st) = Some ?c"
    using assms by (rule deref_assign_same)
  show ?thesis
    using Clear_Some [OF assms] Clear_Some [OF d] cleared_assign [OF assms, of s] d
    by (simp add: andThen_def assign_assign)
qed

theorem Clear_idempotent_witness:
  "deref 0 demo_filled =
     Some \<lparr>db = 6, sql = ''SELECT Name FROM User WHERE Name = ? '', sqlVars = [''Tom'']\<rparr> \<and>
   (\<exists>st'. Clear 0 demo_filled = Inr ((), st') \<and> Clear 0 st' = Inr ((), st') \<and>
      cleared 0 st' \<and>
      deref 0 st' = Some \<lparr>db = 6, sql = [], sqlVars = []\<rparr> \<and>
      andThen (Clear 0 demo_filled) (\<lambda>u. Clear 0) = Clear 0 demo_filled)"
  using Clear_idempotent [OF deref_demo_filled] deref_demo_filled
  by simp



section \<open>Opening the engine\<close>

text \<open>
  C7. If \<^verbatim>\<open>sql.Open\<close> returns an error, \<^verbatim>\<open>NewEngine\<close> logs it on the error channel
  and returns it with a nil engine. If \<^verbatim>\<open>sql.Open\<close> succeeds and \<^verbatim>\<open>Ping\<close> returns
  an error, \<^verbatim>\<open>NewEngine\<close> logs that error and returns it with a nil engine. Logging
  the error means: when the error logger's target is the console, the console gains one
  line with the error logger's prefix and the error; when the target is the discard
  target, the console stays as it was. If both steps succeed, \<^verbatim>\<open>NewEngine\<close> returns an
  engine holding the opened handle and a nil error, and the success message goes to the
  info logger's target.
\<close>

theorem NewEngine_outcomes:
  "(sql_Open D driver source (extern st) = ((d, Some e), w1) \<longrightarrow>
      NewEngine D driver source st = ((None, Some e), Error [Err e] (st\<lparr>extern := w1\<rparr>)) \<and>
      console (snd (NewEngine D driver source st)) =
        (case out (logger st errorLog) of
           Stdout \<Rightarrow> console st @ [(prefix (logger st errorLog), [Err e])]
         | Discard \<Rightarrow> console st)) \<and>
   (sql_Open D driver source (extern st) = ((d, None), w1) \<and> db_Ping D d w1 = (Some e, w2) \<longrightarrow>
      NewEngine D driver source st = ((None, Some e), Error [Err e] (st\<lparr>extern := w2\<rparr>)) \<and>
      console (snd (NewEngine D driver source st)) =
        (case out (logger st errorLog) of
           Stdout \<Rightarrow> console st @ [(prefix (logger st errorLog), [Err e])]
         | Discard \<Rightarrow> console st)) \<and>
   (sql_Open D driver source (extern st) = ((d, None), w1) \<and> db_Ping D d w1 = (None, w2) \<longrightarrow>
      NewEngine D driver source st =
        ((Some \<lparr>db_Engine = d\<rparr>, None), Info [Str ''Connect database success''] (st\<lparr>extern := w2\<rparr>)) \<and>
      console (snd (NewEngine D driver source st)) =
        (case out (logger st infoLog) of
           Stdout \<Rightarrow> console st @ [(prefix (logger st infoLog), [Str ''Connect database success''])]
         | Discard \<Rightarrow> console st))"
proof -
  have a: "sql_Open D driver source (extern st) = ((d, Some e), w1) \<Longrightarrow>
      NewEngine D driver source st = ((None, Some e), Error [Err e] (st\<lparr>extern := w1\<rparr>))"
    by (simp add: NewEngine_def)
  have b: "sql_Open D driver source (extern st) = ((d, None), w1) \<Longrightarrow>
      db_Ping D d w1 = (Some e, w2) \<Longrightarrow>
      NewEngine D driver source st = ((None, Some e), Error [Err e] (st\<lparr>extern := w2\<rparr>))"
    by (simp add: NewEngine_def)
  have c: "sql_Open D driver source (extern st) = ((d, None), w1) \<Longrightarrow>
      db_Ping D d w1 = (None, w2) \<Longrightarrow>
      NewEngine D driver source st =
        ((Some \<lparr>db_Engine = d\<rparr>, None), Info [Str ''Connect database success''] (st\<lparr>extern := w2\<rparr>))"
    by (simp add: NewEngine_def)
  have ce: "\<And>w. console (Error [Err e] (st\<lparr>extern := w\<rparr>)) =
        (case out (logger st errorLog) of
           Stdout \<Rightarrow> console st @ [(prefix (logger st errorLog), [Err e])]
         | Discard \<Rightarrow> console st)"
    by (simp add: console_Error split: writer.splits)
  have ci: "\<And>w. console (Info [Str ''Connect database success''] (st\<lparr>extern := w\<rparr>)) =
        (case out (logger st infoLog) of
           Stdout \<Rightarrow> console st @ [(prefix (logger st infoLog), [Str ''Connect database success''])]
         | Discard \<Rightarrow> console st)"
    by (simp add: console_Info split: writer.splits)
  show ?thesis
    using a b c by (simp add: ce ci)
qed

theorem NewEngine_outcomes_witness:
  "(NewEngine demo_driver ''mysql'' ''gee.db'' (initial_world []) =
     ((None, Some ''unknown driver''),
      Error [Err ''unknown driver''] ((initial_world [])\<lparr>extern := []\<rparr>)) \<and>
    console (snd (NewEngine demo_driver ''mysql'' ''gee.db'' (initial_world []))) =
      [(CHR 0x1B # ''[31m[error]'' @ CHR 0x1B # ''[0m '', [Err ''unknown driver''])]) \<and>
   (NewEngine demo_driver ''sqlite3'' [] (initial_world []) =
     ((None, Some ''unable to open database file''),
      Error [Err ''unable to open database file''] ((initial_world [])\<lparr>extern := []\<rparr>)) \<and>
    console (snd (NewEngine demo_driver ''sqlite3'' [] (initial_world []))) =
      [(CHR 0x1B # ''[31m[error]'' @ CHR 0x1B # ''[0m '', [Err ''unable to open database file''])]) \<and>
   (NewEngine demo_driver ''sqlite3'' ''gee.db'' (initial_world []) =
     ((Some \<lparr>db_Engine = 6\<rparr>, None),
      Info [Str ''Connect database success''] ((initial_world [])\<lparr>extern := []\<rparr>)) \<and>
    console (snd (NewEngine demo_driver ''sqlite3'' ''gee.db'' (initial_world []))) =
      [(CHR 0x1B # ''[34m[info ]'' @ CHR 0x1B # ''[0m '', [Str ''Connect database success''])])"
proof -
  have x: "extern (initial_world ([] :: demo_world) :: (nat, string, string, demo_world) world) = []"
    by (simp add: initial_world_def)
  have l: "logger (initial_world ([] :: demo_world) :: (nat, string, string, demo_world) world) =
      initial_logger"
    by (simp add: initial_world_def)
  have k: "console (initial_world ([] :: demo_world) :: (nat, string, string, demo_world) world) = []"
    by (simp add: initial_world_def)
  have o1: "sql_Open demo_driver ''mysql'' ''gee.db'' [] = ((0, Some ''unknown driver''), [])"
    by (simp add: demo_driver_def)
  have o2: "sql_Open demo_driver ''sqlite3'' [] [] = ((0, None), [])"
    by (simp add: demo_driver_def)
  have o3: "sql_Open demo_driver ''sqlite3'' ''gee.db'' [] = ((6, None), [])"
    by (simp add: demo_driver_def)
  have p2: "db_Ping demo_driver 0 [] = (Some ''unable to open database file'', [])"
    by (simp add: demo_driver_def)
  have p3: "db_Ping demo_driver 6 [] = (None, [])"
    by (simp add: demo_driver_def)
  show ?thesis
    using NewEngine_outcomes [where D = demo_driver and driver = "''mysql''" and source = "''gee.db''"
        and st = "initial_world []" and d = 0 and e = "''unknown driver''" and ?w1.0 = "[]"]
      NewEngine_outcomes [where D = demo_driver and driver = "''sqlite3''" and source = "[]"
        and st = "initial_world []" and d = 0 and e = "''unable to open database file''"
        and ?w1.0 = "[]" and ?w2.0 = "[]"]
      NewEngine_outcomes [where D = demo_driver and driver = "''sqlite3''" and source = "''gee.db''"
        and st = "initial_world []" and d = 6 and ?w1.0 = "[]" and ?w2.0 = "[]"]
    by (simp (no_asm_use) add: x l k o1 o2 o3 p2 p3 initial_logger_def; blast)
qed

section \<open>The demonstration program's statements\<close>

text \<open>
  The statements of the example program, run on the small driver: creating the table a
  second time returns the driver's error and leaves the session empty, and the insertion
  made next on the same session binds its two parameters and reports two rows. Opening
  with a driver name that is not registered puts the error on the console.
\<close>

lemmas run_defs = andThen_def Raw_def Exec_def Clear_def deref_def assign_def WriteString_def
  Reset_def Info_def Error_def Println_def demo_driver_def demo_state_def New_def
  initial_world_def initial_logger_def Let_def

lemma demo_create_table_twice:
  "map_sum id (\<lambda>r. (fst r, heap (snd r)))
     (andThen (andThen (Raw ''CREATE TABLE User(Name text);'' [] 0 (demo_state [])) (Exec demo_driver))
        (\<lambda>r st. andThen (Raw ''CREATE TABLE User(Name text);'' [] 0 st) (Exec demo_driver)))
   = Inr ((0, Some ''already exists''), [\<lparr>db = 6, sql = [], sqlVars = []\<rparr>])"
  by (simp add: run_defs)

lemma demo_insert_after_failure:
  "map_sum id (\<lambda>r. (fst r, heap (snd r)))
     (andThen (andThen (Raw ''CREATE TABLE User(Name text);'' [] 0
                          (demo_state [(''CREATE TABLE User(Name text); '', [])]))
                 (Exec demo_driver))
        (\<lambda>r st. andThen (Raw ''INSERT INTO User(`Name`) values (?), (?)'' [''Tom'', ''Sam''] 0 st)
                (Exec demo_driver)))
   = Inr ((2, None), [\<lparr>db = 6, sql = [], sqlVars = []\<rparr>])"
  by (simp add: run_defs)

lemma demo_NewEngine_logs_error:
  "console (snd (NewEngine demo_driver ''mysql'' ''gee.db'' (initial_world []))) =
     [(prefix (initial_logger errorLog), [Err ''unknown driver''])]"
  by (simp add: NewEngine_def run_defs)

end
